theory Spec2Isabelle
  imports Main
begin

section \<open>Python values, errors and the two dictionary accesses\<close>

text \<open>
  The assistant node functions of \<^verbatim>\<open>src/assistants.py\<close> inspect values at run time
  (\<^verbatim>\<open>isinstance\<close>, \<^verbatim>\<open>in\<close>, \<^verbatim>\<open>.get\<close>, subscripting), so a config, a conversational state
  and a pipeline result are all values of one type of Python objects. A message
  (an instance of \<^verbatim>\<open>BaseMessage\<close>) has a role, a text content and a tool-call payload.
  Dictionaries are association lists with string keys, looked up with \<open>map_of\<close>: the code
  only ever looks up string literals. \<open>PObj\<close> stands for any other object that is neither
  a dict, a list nor a message and has no mapping interface (a float, a tuple, a set, ...).
\<close>

datatype role = Human | AI | System_role | Tool_role

datatype message = Message (msg_role: role) (msg_content: string) (msg_tool_calls: "string list")

datatype pyval =
    PNone
  | PBool bool
  | PInt int
  | PStr string
  | PMsg message
  | PList "pyval list"
  | PDict "(string \<times> pyval) list"
  | PObj nat

datatype error =
    AttributeError
  | KeyError
  | TypeError
  | ValueError
  | ImportError
  | RuntimeError
  | Other_error string

text \<open>\<^verbatim>\<open>obj.get(key, default)\<close>: only a dict has the method; on anything else the
  attribute access raises \<^verbatim>\<open>AttributeError\<close>.\<close>

fun py_get :: "pyval \<Rightarrow> string \<Rightarrow> pyval \<Rightarrow> error + pyval" where
  "py_get (PDict kvs) k d = Inr (case map_of kvs k of Some v \<Rightarrow> v | None \<Rightarrow> d)"
| "py_get _ k d = Inl AttributeError"

text \<open>\<^verbatim>\<open>obj[key]\<close> with a string key: a dict raises \<^verbatim>\<open>KeyError\<close> when the key is
  missing; \<^verbatim>\<open>None\<close>, numbers and messages are not subscriptable, strings and lists
  take integer indices only, so all of them raise \<^verbatim>\<open>TypeError\<close>.\<close>

fun py_getitem :: "pyval \<Rightarrow> string \<Rightarrow> error + pyval" where
  "py_getitem (PDict kvs) k = (case map_of kvs k of Some v \<Rightarrow> Inr v | None \<Rightarrow> Inl KeyError)"
| "py_getitem _ k = Inl TypeError"

fun is_BaseMessage :: "pyval \<Rightarrow> bool" where
  "is_BaseMessage (PMsg m) = True"
| "is_BaseMessage _ = False"

text \<open>\<^verbatim>\<open>AIMessage(content=s)\<close>: an assistant message with no tool calls.\<close>

definition AIMessage :: "string \<Rightarrow> pyval" where
  "AIMessage s = PMsg (Message AI s [])"


section \<open>The process-wide thread context\<close>

text \<open>
  The world a node function runs in: the two process-wide variables of the thread
  context, and the trace of the calls the node function makes to its collaborators,
  oldest first.
\<close>

datatype event =
    Set_thread_id pyval
  | Set_user_id pyval
  | Pipeline_invoked pyval pyval

record world =
  thread_id_var :: "pyval option"
  user_id_var :: "pyval option"
  trace :: "event list"

text \<open>Modelled from the spec: \<^verbatim>\<open>set_thread_id\<close> and \<^verbatim>\<open>set_user_id\<close> live in
  \<^verbatim>\<open>src/tools.py\<close>, which is not among the sources. The spec describes them as
  process-wide setters with no return value that overwrite the current thread id and
  user id of the thread context.\<close>

definition set_thread_id :: "pyval \<Rightarrow> world \<Rightarrow> world" where
  "set_thread_id v w = w\<lparr>thread_id_var := Some v, trace := trace w @ [Set_thread_id v]\<rparr>"

definition set_user_id :: "pyval \<Rightarrow> world \<Rightarrow> world" where
  "set_user_id v w = w\<lparr>user_id_var := Some v, trace := trace w @ [Set_user_id v]\<rparr>"

text \<open>
  A pipeline (\<^verbatim>\<open>prompt | llm.bind_tools(...)\<close>) is an external callable: given the
  state and the config it returns a value or raises. \<^verbatim>\<open>ainvoke\<close> (awaited, the sales
  path) and \<^verbatim>\<open>invoke\<close> (blocking, the support path) both make one call to it.
\<close>

type_synonym runnable = "pyval \<Rightarrow> pyval \<Rightarrow> error + pyval"

definition ainvoke :: "runnable \<Rightarrow> pyval \<Rightarrow> pyval \<Rightarrow> world \<Rightarrow> (error + pyval) \<times> world" where
  "ainvoke runnable state config w =
     (runnable state config, w\<lparr>trace := trace w @ [Pipeline_invoked state config]\<rparr>)"

definition invoke :: "runnable \<Rightarrow> pyval \<Rightarrow> pyval \<Rightarrow> world \<Rightarrow> (error + pyval) \<times> world" where
  "invoke runnable state config w =
     (runnable state config, w\<lparr>trace := trace w @ [Pipeline_invoked state config]\<rparr>)"


section \<open>The assistant node functions\<close>

text \<open>
  Lines 80--85 of \<^verbatim>\<open>sales_assistant\<close>:
  \<^verbatim>\<open>
    try:
        thread_id = config.get("configurable", {}).get("thread_id", None)
    except AttributeError:
        thread_id = None
    if thread_id is None:
        thread_id = "default-thread"
  \<close>
  The handler catches \<^verbatim>\<open>AttributeError\<close> only; any other error would leave the
  function.
\<close>

definition sales_thread_id :: "pyval \<Rightarrow> error + pyval" where
  "sales_thread_id config =
     (case (case (case py_get config ''configurable'' (PDict []) of
                    Inl e \<Rightarrow> Inl e
                  | Inr c \<Rightarrow> py_get c ''thread_id'' PNone) of
              Inl AttributeError \<Rightarrow> Inr PNone
            | Inl e \<Rightarrow> Inl e
            | Inr v \<Rightarrow> Inr v) of
        Inl e \<Rightarrow> Inl e
      | Inr thread_id \<Rightarrow>
          Inr (if thread_id = PNone then PStr ''default-thread'' else thread_id))"

text \<open>
  Lines 93--107 of \<^verbatim>\<open>sales_assistant\<close>, the normalisation of the pipeline's result.
  \<open>str_py\<close> is Python's built-in \<^verbatim>\<open>str\<close>.
\<close>

definition messages_dict :: "pyval \<Rightarrow> pyval" where
  "messages_dict v = PDict [(''messages'', v)]"

definition normalize_result :: "(pyval \<Rightarrow> string) \<Rightarrow> pyval \<Rightarrow> pyval" where
  "normalize_result str_py result =
     (case (case result of PDict kvs \<Rightarrow> map_of kvs ''messages'' | _ \<Rightarrow> None) of
        Some v \<Rightarrow> messages_dict v
      | None \<Rightarrow>
          if is_BaseMessage result then messages_dict (PList [result])
          else (case result of
                  PList xs \<Rightarrow>
                    if list_all is_BaseMessage xs then messages_dict result
                    else messages_dict (PList [AIMessage (str_py result)])
                | _ \<Rightarrow> messages_dict (PList [AIMessage (str_py result)])))"

text \<open>
  \<^verbatim>\<open>sales_assistant(state, config, runnable)\<close>. \<open>DEFAULT_USER_ID\<close> is a constant of
  \<^verbatim>\<open>src/tools.py\<close> and is a parameter here. An error of the pipeline is not caught.
\<close>

definition sales_assistant ::
  "pyval \<Rightarrow> (pyval \<Rightarrow> string) \<Rightarrow> runnable \<Rightarrow> pyval \<Rightarrow> pyval \<Rightarrow> world \<Rightarrow> (error + pyval) \<times> world" where
  "sales_assistant DEFAULT_USER_ID str_py runnable state config w =
     (case sales_thread_id config of
        Inl e \<Rightarrow> (Inl e, w)
      | Inr thread_id \<Rightarrow>
          (let w1 = set_thread_id thread_id w;
               w2 = set_user_id DEFAULT_USER_ID w1;
               (r, w3) = ainvoke runnable state config w2
           in case r of
                Inl e \<Rightarrow> (Inl e, w3)
              | Inr result \<Rightarrow> (Inr (normalize_result str_py result), w3)))"

text \<open>
  \<^verbatim>\<open>
  def support_assistant(state, config):
      set_thread_id(config["configurable"]["thread_id"])
      return {"messages": support_runnable.invoke(state, config=config)}
  \<close>
  The argument of \<^verbatim>\<open>set_thread_id\<close> is evaluated first, so a failing subscript
  leaves the world untouched.
\<close>

definition support_assistant ::
  "runnable \<Rightarrow> pyval \<Rightarrow> pyval \<Rightarrow> world \<Rightarrow> (error + pyval) \<times> world" where
  "support_assistant support_runnable state config w =
     (case py_getitem config ''configurable'' of
        Inl e \<Rightarrow> (Inl e, w)
      | Inr c \<Rightarrow>
          (case py_getitem c ''thread_id'' of
             Inl e \<Rightarrow> (Inl e, w)
           | Inr thread_id \<Rightarrow>
               (let w1 = set_thread_id thread_id w;
                    (r, w2) = invoke support_runnable state config w1
                in case r of
                     Inl e \<Rightarrow> (Inl e, w2)
                   | Inr result \<Rightarrow> (Inr (messages_dict result), w2))))"


section \<open>The search tool provider\<close>

text \<open>
  \<^verbatim>\<open>src/web_search_mcp.py\<close> builds its tools with the decorator \<^verbatim>\<open>tool\<close> of the
  external library \<^verbatim>\<open>langchain_core\<close>. The module calls it in three ways: with the
  tool's name as positional argument (\<^verbatim>\<open>@tool("brave_web_search")\<close>), with the name as
  keyword (\<^verbatim>\<open>@tool(name="brave_news_search")\<close>) and with no argument (\<^verbatim>\<open>@tool()\<close>).
  The decorator is a parameter of the provider: it receives the way it is called and
  the decorated function, and it returns a tool or raises. A decorated function is its
  name, its docstring if it has one, and what it computes from the query.
\<close>

record py_function =
  fn_name :: string
  fn_doc :: "string option"
  fn_body :: "string \<Rightarrow> error + string"

record search_tool =
  tool_name :: string
  tool_run :: "string \<Rightarrow> error + string"

datatype decorator_call =
    By_position string
  | By_keyword_name string
  | No_arguments

type_synonym decorator = "decorator_call \<Rightarrow> py_function \<Rightarrow> error + search_tool"

text \<open>\<^verbatim>\<open>os.environ.get(key, default)\<close> and \<^verbatim>\<open>os.getenv(key, default)\<close>.\<close>

definition environ_get :: "(string \<Rightarrow> string option) \<Rightarrow> string \<Rightarrow> string \<Rightarrow> string" where
  "environ_get env k d = (case env k of Some v \<Rightarrow> v | None \<Rightarrow> d)"

text \<open>
  \<^verbatim>\<open>str.strip()\<close>, \<^verbatim>\<open>str.lower()\<close> and \<^verbatim>\<open>needle in s\<close>. A \<open>char\<close> is a code point
  below 256, so a \<open>string\<close> is a Python \<^verbatim>\<open>str\<close> of such code points. \<^verbatim>\<open>strip\<close> removes
  the characters for which \<^verbatim>\<open>str.isspace\<close> holds: below 256 these are the space, the
  controls 0x09--0x0D and 0x1C--0x1F, the next-line control 0x85 and the no-break
  space 0xA0. \<^verbatim>\<open>lower\<close> maps \<^verbatim>\<open>A\<close>--\<^verbatim>\<open>Z\<close> and the capital letters 0xC0--0xDE (all but the
  multiplication sign 0xD7) to the letter 32 code points above.
\<close>

definition is_space :: "char \<Rightarrow> bool" where
  "is_space c =
     (c \<in> set [CHR '' '', CHR 0x09, CHR 0x0A, CHR 0x0B, CHR 0x0C, CHR 0x0D,
                CHR 0x1C, CHR 0x1D, CHR 0x1E, CHR 0x1F, CHR 0x85, CHR 0xA0])"

definition strip :: "string \<Rightarrow> string" where
  "strip s = rev (dropWhile is_space (rev (dropWhile is_space s)))"

definition lower_char :: "char \<Rightarrow> char" where
  "lower_char c =
     (let n = (of_char c :: nat) in
      if (65 \<le> n \<and> n \<le> 90) \<or> (192 \<le> n \<and> n \<le> 222 \<and> n \<noteq> 215) then char_of (n + 32)
      else c)"

definition lower :: "string \<Rightarrow> string" where
  "lower s = map lower_char s"

fun starts_with :: "string \<Rightarrow> string \<Rightarrow> bool" where
  "starts_with [] s = True"
| "starts_with (c # cs) [] = False"
| "starts_with (c # cs) (d # ds) = (c = d \<and> starts_with cs ds)"

fun contains_str :: "string \<Rightarrow> string \<Rightarrow> bool" where
  "contains_str needle [] = (needle = [])"
| "contains_str needle (c # cs) = (starts_with needle (c # cs) \<or> contains_str needle cs)"

text \<open>
  The live integration is external as well. \<open>discover\<close> is the outcome of lines 43--62
  for an API key (the three imports, the client, \<^verbatim>\<open>add_server\<close> and \<^verbatim>\<open>list_tools\<close>):
  an error or the tools the server lists, each with its optional attributes
  \<^verbatim>\<open>name\<close> and \<^verbatim>\<open>tool_name\<close>. \<open>call_tool\<close> is \<^verbatim>\<open>str\<close> of what
  \<^verbatim>\<open>client.call_tool(name, {"query": q})\<close> returns, or its error; \<open>repr_exc\<close> is
  \<^verbatim>\<open>repr\<close> of an error; \<open>loop_running\<close> says whether a wrapped tool is called while
  an event loop is running in the calling thread.
\<close>

record remote_tool =
  rt_name :: "string option"
  rt_tool_name :: "string option"

record mcp_client =
  discover :: "string \<Rightarrow> error + remote_tool list"
  call_tool :: "string \<Rightarrow> string \<Rightarrow> error + string"
  repr_exc :: "error \<Rightarrow> string"
  loop_running :: bool

definition unavailable_message :: string where
  "unavailable_message = ''Web search is unavailable: missing BRAVE_API_KEY.''"

text \<open>Line 68: \<^verbatim>\<open>getattr(t, "name", None) or getattr(t, "tool_name", None)\<close>.\<close>

definition remote_name :: "remote_tool \<Rightarrow> string option" where
  "remote_name t =
     (case rt_name t of
        Some n \<Rightarrow> if n \<noteq> [] then Some n else rt_tool_name t
      | None \<Rightarrow> rt_tool_name t)"

text \<open>Lines 69--72: the names of the listed tools that pass both \<^verbatim>\<open>continue\<close> tests.\<close>

fun relevant_names :: "remote_tool list \<Rightarrow> string list" where
  "relevant_names [] = []"
| "relevant_names (t # ts) =
     (case remote_name t of
        None \<Rightarrow> relevant_names ts
      | Some n \<Rightarrow>
          if n = [] then relevant_names ts
          else if \<not> contains_str ''brave'' (lower n) then relevant_names ts
          else n # relevant_names ts)"

text \<open>Lines 74--81, \<^verbatim>\<open>_runner(q, _tname)\<close>: every error of the remote call becomes an
  inline error string.\<close>

definition runner :: "mcp_client \<Rightarrow> string \<Rightarrow> string \<Rightarrow> string" where
  "runner mcp tname q =
     (case call_tool mcp tname q of
        Inr res \<Rightarrow> res
      | Inl e \<Rightarrow> ''[brave:'' @ tname @ ''] error: '' @ repr_exc mcp e)"

text \<open>
  Lines 86--99, \<^verbatim>\<open>_wrapped(q)\<close>. Without a running event loop
  \<^verbatim>\<open>get_running_loop\<close> raises \<^verbatim>\<open>RuntimeError\<close> and the handler runs the runner on a
  new loop. Inside a running loop both \<^verbatim>\<open>run_until_complete\<close> calls raise
  \<^verbatim>\<open>RuntimeError\<close>, the second one outside any handler. The function refers to
  \<^verbatim>\<open>_runner\<close> by name, a variable of the enclosing function that every iteration
  rebinds, so when a tool is called it runs the runner of the last selected name.
\<close>

definition wrapped :: "mcp_client \<Rightarrow> string \<Rightarrow> py_function" where
  "wrapped mcp last_name =
     \<lparr>fn_name = ''_wrapped'', fn_doc = None,
      fn_body = (\<lambda>q. if loop_running mcp then Inl RuntimeError
                      else Inr (runner mcp last_name q))\<rparr>"

text \<open>Lines 85 and 101: one \<^verbatim>\<open>@tool()\<close> call per selected name; the first error ends
  the loop.\<close>

fun wrap_all :: "decorator \<Rightarrow> py_function \<Rightarrow> string list \<Rightarrow> error + search_tool list" where
  "wrap_all tool f [] = Inr []"
| "wrap_all tool f (n # ns) =
     (case tool No_arguments f of
        Inl e \<Rightarrow> Inl e
      | Inr t \<Rightarrow>
          (case wrap_all tool f ns of
             Inl e \<Rightarrow> Inl e
           | Inr selected \<Rightarrow> Inr (t # selected)))"

text \<open>The three stub functions and the two functions of the synchronous provider.
  Only the latter two have a docstring.\<close>

definition unavailable_fn :: py_function where
  "unavailable_fn =
     \<lparr>fn_name = ''brave_web_search_unavailable'', fn_doc = None,
      fn_body = (\<lambda>query. Inr unavailable_message)\<rparr>"

definition live_stub_fn :: py_function where
  "live_stub_fn =
     \<lparr>fn_name = ''brave_web_search_stub'', fn_doc = None,
      fn_body = (\<lambda>query. Inr (''[brave] (stub) search results for: '' @ query))\<rparr>"

definition fallback_web_fn :: py_function where
  "fallback_web_fn =
     \<lparr>fn_name = ''brave_web_search_stub'', fn_doc = None,
      fn_body = (\<lambda>query. Inr (''[brave] (fallback) search results for: '' @ query))\<rparr>"

definition fallback_news_fn :: py_function where
  "fallback_news_fn =
     \<lparr>fn_name = ''brave_news_search_stub'', fn_doc = None,
      fn_body = (\<lambda>query. Inr (''[brave-news] (fallback) search results for: '' @ query))\<rparr>"

definition sync_web_fn :: "string \<Rightarrow> py_function" where
  "sync_web_fn api_key =
     \<lparr>fn_name = ''brave_web_search'',
      fn_doc = Some (''Perform a general web search using Brave Search (stub for tests). '' @
                     ''Returns a textual placeholder. Requires BRAVE_API_KEY for real queries.''),
      fn_body = (\<lambda>query. if api_key = [] then Inr unavailable_message
                          else Inr (''[brave] search results for: '' @ query))\<rparr>"

definition sync_news_fn :: "string \<Rightarrow> py_function" where
  "sync_news_fn api_key =
     \<lparr>fn_name = ''brave_news_search'',
      fn_doc = Some (''Perform a news-focused search using Brave Search (stub for tests). '' @
                     ''Returns a textual placeholder. Requires BRAVE_API_KEY for real queries.''),
      fn_body = (\<lambda>query. if api_key = [] then Inr unavailable_message
                          else Inr (''[brave-news] search results for: '' @ query))\<rparr>"

text \<open>Lines 42--112, the body of the \<^verbatim>\<open>try\<close>.\<close>

definition live_tools :: "decorator \<Rightarrow> mcp_client \<Rightarrow> string \<Rightarrow> error + search_tool list" where
  "live_tools tool mcp brave_api_key =
     (case discover mcp brave_api_key of
        Inl e \<Rightarrow> Inl e
      | Inr tools \<Rightarrow>
          (let names = relevant_names tools in
           case (if names = [] then Inr [] else wrap_all tool (wrapped mcp (last names)) names) of
             Inl e \<Rightarrow> Inl e
           | Inr selected \<Rightarrow>
               if selected \<noteq> [] then Inr selected
               else (case tool (By_position ''brave_web_search'') live_stub_fn of
                       Inl e \<Rightarrow> Inl e
                     | Inr t \<Rightarrow> Inr [t])))"

text \<open>Lines 114--126, the handler \<^verbatim>\<open>except Exception\<close>. An error raised inside the
  handler leaves the function.\<close>

definition fallback_tools :: "decorator \<Rightarrow> error + search_tool list" where
  "fallback_tools tool =
     (case tool (By_position ''brave_web_search'') fallback_web_fn of
        Inl e \<Rightarrow> Inl e
      | Inr web \<Rightarrow>
          (case tool (By_keyword_name ''brave_news_search'') fallback_news_fn of
             Inl e \<Rightarrow> Inl e
           | Inr news \<Rightarrow> Inr [web, news]))"

text \<open>\<^verbatim>\<open>_load_brave_tool()\<close>; the leading underscore is dropped from the name.\<close>

definition load_brave_tool ::
  "decorator \<Rightarrow> mcp_client \<Rightarrow> (string \<Rightarrow> string option) \<Rightarrow> error + search_tool list" where
  "load_brave_tool tool mcp env =
     (let brave_api_key = strip (environ_get env ''BRAVE_API_KEY'' []) in
      if brave_api_key = [] then
        (case tool (By_keyword_name ''brave_web_search_unavailable'') unavailable_fn of
           Inl e \<Rightarrow> Inl e
         | Inr t \<Rightarrow> Inr [t])
      else
        (case live_tools tool mcp brave_api_key of
           Inr tools \<Rightarrow> Inr tools
         | Inl e \<Rightarrow> fallback_tools tool))"

text \<open>\<^verbatim>\<open>get_brave_web_search_tool_sync()\<close>: the key is read once, and both functions
  test the value read.\<close>

definition get_brave_web_search_tool_sync ::
  "decorator \<Rightarrow> (string \<Rightarrow> string option) \<Rightarrow> error + search_tool list" where
  "get_brave_web_search_tool_sync tool env =
     (let api_key = strip (environ_get env ''BRAVE_API_KEY'' []) in
      case tool (By_position ''brave_web_search'') (sync_web_fn api_key) of
        Inl e \<Rightarrow> Inl e
      | Inr web \<Rightarrow>
          (case tool (By_position ''brave_news_search'') (sync_news_fn api_key) of
             Inl e \<Rightarrow> Inl e
           | Inr news \<Rightarrow> Inr [web, news]))"

text \<open>
  What the module relies on, or trips over, in the decorator. In \<^verbatim>\<open>langchain_core\<close>
  the decorator's first parameter is the name, given by position; its signature has no
  parameter called \<^verbatim>\<open>name\<close>, so Python refuses the keyword call with a
  \<^verbatim>\<open>TypeError\<close>. The module itself records the change: at lines 84, 107 and 116 the
  form \<^verbatim>\<open>@tool(name=...)\<close> is commented out and replaced, at lines 34 and 122 it is
  still in use.
\<close>

definition accepts_positional_name :: "decorator \<Rightarrow> bool" where
  "accepts_positional_name tool =
     (\<forall>n f. fn_doc f \<noteq> None \<longrightarrow>
        tool (By_position n) f = Inr \<lparr>tool_name = n, tool_run = fn_body f\<rparr>)"

definition rejects_keyword_name :: "decorator \<Rightarrow> bool" where
  "rejects_keyword_name tool = (\<forall>n f. tool (By_keyword_name n) f = Inl TypeError)"

text \<open>A decorator that takes the name in either form and needs no docstring: what the
  module would need for lines 34 and 114--126 to work as written.\<close>

definition accepts_every_call :: "decorator \<Rightarrow> bool" where
  "accepts_every_call tool =
     (\<forall>f. (\<forall>n. tool (By_position n) f = Inr \<lparr>tool_name = n, tool_run = fn_body f\<rparr>)
        \<and> (\<forall>n. tool (By_keyword_name n) f = Inr \<lparr>tool_name = n, tool_run = fn_body f\<rparr>)
        \<and> tool No_arguments f = Inr \<lparr>tool_name = fn_name f, tool_run = fn_body f\<rparr>)"

text \<open>A decorator with the call signature of \<^verbatim>\<open>langchain_core.tools.tool\<close>: the name
  by position only, and a function without a docstring is refused. It shows that the
  two assumptions above can be met together.\<close>

definition langchain_tool :: decorator where
  "langchain_tool call f =
     (case call of
        By_keyword_name n \<Rightarrow> Inl TypeError
      | By_position n \<Rightarrow>
          (case fn_doc f of
             None \<Rightarrow> Inl ValueError
           | Some d \<Rightarrow> Inr \<lparr>tool_name = n, tool_run = fn_body f\<rparr>)
      | No_arguments \<Rightarrow>
          (case fn_doc f of
             None \<Rightarrow> Inl ValueError
           | Some d \<Rightarrow> Inr \<lparr>tool_name = fn_name f, tool_run = fn_body f\<rparr>))"

text \<open>An integration that cannot be reached: the imports of lines 43--45 fail.\<close>

definition unreachable_mcp :: mcp_client where
  "unreachable_mcp =
     \<lparr>discover = (\<lambda>key. Inl ImportError), call_tool = (\<lambda>name q. Inl RuntimeError),
      repr_exc = (\<lambda>e. ''error''), loop_running = False\<rparr>"


section \<open>Notions the properties are stated with\<close>

text \<open>The value at the key path \<^verbatim>\<open>config["configurable"]["thread_id"]\<close>, when the
  config is a dict whose \<^verbatim>\<open>configurable\<close> entry is a dict that has the key.\<close>

definition thread_id_path :: "pyval \<Rightarrow> pyval option" where
  "thread_id_path config =
     (case config of
        PDict kvs \<Rightarrow>
          (case map_of kvs ''configurable'' of
             Some (PDict kvs') \<Rightarrow> map_of kvs' ''thread_id''
           | _ \<Rightarrow> None)
      | _ \<Rightarrow> None)"

text \<open>A non-empty list of messages.\<close>

fun nonempty_message_seq :: "pyval \<Rightarrow> bool" where
  "nonempty_message_seq (PList xs) = (xs \<noteq> [] \<and> list_all is_BaseMessage xs)"
| "nonempty_message_seq _ = False"

text \<open>An outcome that is a returned dict with a key \<^verbatim>\<open>messages\<close> holding a non-empty
  list of messages.\<close>

fun returns_message_seq :: "error + pyval \<Rightarrow> bool" where
  "returns_message_seq (Inr (PDict kvs)) =
     (case map_of kvs ''messages'' of Some v \<Rightarrow> nonempty_message_seq v | None \<Rightarrow> False)"
| "returns_message_seq _ = False"

text \<open>A dict that has the key \<^verbatim>\<open>messages\<close>.\<close>

fun has_messages_key :: "pyval \<Rightarrow> bool" where
  "has_messages_key (PDict kvs) = (map_of kvs ''messages'' \<noteq> None)"
| "has_messages_key _ = False"


text \<open>The search credential is absent or blank.\<close>

definition credential_missing :: "(string \<Rightarrow> string option) \<Rightarrow> bool" where
  "credential_missing env =
     (case env ''BRAVE_API_KEY'' of None \<Rightarrow> True | Some s \<Rightarrow> list_all is_space s)"

text \<open>A call of \<^verbatim>\<open>set_user_id\<close>.\<close>

fun is_user_id_write :: "event \<Rightarrow> bool" where
  "is_user_id_write (Set_user_id v) = True"
| "is_user_id_write _ = False"


section \<open>Thread-id resolution\<close>

lemma sales_thread_id_total:
  "sales_thread_id config =
     Inr (case thread_id_path config of
            None \<Rightarrow> PStr ''default-thread''
          | Some t \<Rightarrow> if t = PNone then PStr ''default-thread'' else t)"
proof (cases config)
  case (PDict kvs)
  show ?thesis
  proof (cases "map_of kvs ''configurable''")
    case None
    with PDict show ?thesis
      by (simp add: sales_thread_id_def thread_id_path_def)
  next
    case (Some c)
    with PDict show ?thesis
      by (cases c) (simp_all add: sales_thread_id_def thread_id_path_def split: option.splits)
  qed
qed (simp_all add: sales_thread_id_def thread_id_path_def)

lemma sales_thread_id_default:
  "thread_id_path config = None \<Longrightarrow> sales_thread_id config = Inr (PStr ''default-thread'')"
  by (simp add: sales_thread_id_total)

lemma support_path_missing:
  assumes "thread_id_path config = None"
  shows "\<exists>e. support_assistant support_runnable state config w = (Inl e, w)"
proof (cases config)
  case (PDict kvs)
  show ?thesis
  proof (cases "map_of kvs ''configurable''")
    case None
    with PDict show ?thesis by (simp add: support_assistant_def)
  next
    case (Some c)
    with PDict assms show ?thesis
      by (cases c) (simp_all add: support_assistant_def thread_id_path_def)
  qed
qed (simp_all add: support_assistant_def)

lemma support_path_present:
  assumes "thread_id_path config = Some t"
  shows "support_assistant support_runnable state config w =
           (case support_runnable state config of
              Inl e \<Rightarrow> Inl e
            | Inr result \<Rightarrow> Inr (messages_dict result),
            w\<lparr>thread_id_var := Some t,
              trace := trace w @ [Set_thread_id t, Pipeline_invoked state config]\<rparr>)"
proof -
  from assms obtain kvs kvs' where c: "config = PDict kvs"
    and k: "map_of kvs ''configurable'' = Some (PDict kvs')"
    and t: "map_of kvs' ''thread_id'' = Some t"
    by (auto simp: thread_id_path_def split: pyval.splits option.splits)
  show ?thesis
    by (simp add: c k t support_assistant_def set_thread_id_def invoke_def split: sum.splits)
qed

lemma sales_assistant_run:
  "sales_assistant uid str_py runnable state config w =
     (case runnable state config of
        Inl e \<Rightarrow> Inl e
      | Inr result \<Rightarrow> Inr (normalize_result str_py result),
      w\<lparr>thread_id_var := Some (case thread_id_path config of
                                 None \<Rightarrow> PStr ''default-thread''
                               | Some t \<Rightarrow> if t = PNone then PStr ''default-thread'' else t),
        user_id_var := Some uid,
        trace := trace w @
          [Set_thread_id (case thread_id_path config of
                            None \<Rightarrow> PStr ''default-thread''
                          | Some t \<Rightarrow> if t = PNone then PStr ''default-thread'' else t),
           Set_user_id uid,
           Pipeline_invoked state config]\<rparr>)"
  by (simp add: sales_assistant_def sales_thread_id_total set_thread_id_def set_user_id_def
      ainvoke_def split: sum.splits)


section \<open>Normalisation of the pipeline's result\<close>

lemma normalize_result_dict:
  "map_of kvs ''messages'' = Some v \<Longrightarrow> normalize_result str_py (PDict kvs) = messages_dict v"
  by (simp add: normalize_result_def)

lemma normalize_result_message:
  "normalize_result str_py (PMsg m) = messages_dict (PList [PMsg m])"
  by (simp add: normalize_result_def)

lemma normalize_result_list:
  "normalize_result str_py (PList xs) =
     (if list_all is_BaseMessage xs then messages_dict (PList xs)
      else messages_dict (PList [AIMessage (str_py (PList xs))]))"
  by (simp add: normalize_result_def)

lemma normalize_result_other:
  assumes "\<not> has_messages_key result" and "\<not> is_BaseMessage result"
    and "\<And>xs. result \<noteq> PList xs"
  shows "normalize_result str_py result = messages_dict (PList [AIMessage (str_py result)])"
  using assms by (cases result) (auto simp: normalize_result_def)

lemma sales_assistant_result:
  "runnable state config = Inr result \<Longrightarrow>
     fst (sales_assistant uid str_py runnable state config w) =
       Inr (normalize_result str_py result)"
  by (simp add: sales_assistant_run)


text \<open>
  C1. Whatever value the pipeline returns, \<^verbatim>\<open>sales_assistant\<close> normalises it by this
  precedence: a dict with a key \<^verbatim>\<open>messages\<close> gives \<^verbatim>\<open>{"messages": v}\<close> with that
  entry \<open>v\<close> unchanged; otherwise a single message gives the one-element list holding
  it; otherwise a list all of whose elements are messages is passed through unchanged;
  otherwise a list with a non-message element gives one synthetic assistant message
  whose content is \<^verbatim>\<open>str\<close> of the list; and any other value gives one synthetic
  assistant message whose content is \<^verbatim>\<open>str\<close> of the value.
\<close>

theorem sales_assistant_normalization_precedence:
  assumes "runnable state config = Inr result"
  shows
    "(\<forall>kvs v. result = PDict kvs \<and> map_of kvs ''messages'' = Some v \<longrightarrow>
        fst (sales_assistant uid str_py runnable state config w) =
          Inr (PDict [(''messages'', v)]))
     \<and> (\<forall>m. result = PMsg m \<longrightarrow>
        fst (sales_assistant uid str_py runnable state config w) =
          Inr (PDict [(''messages'', PList [PMsg m])]))
     \<and> (\<forall>xs. result = PList xs \<and> list_all is_BaseMessage xs \<longrightarrow>
        fst (sales_assistant uid str_py runnable state config w) =
          Inr (PDict [(''messages'', PList xs)]))
     \<and> (\<forall>xs. result = PList xs \<and> \<not> list_all is_BaseMessage xs \<longrightarrow>
        fst (sales_assistant uid str_py runnable state config w) =
          Inr (PDict [(''messages'', PList [PMsg (Message AI (str_py (PList xs)) [])])]))
     \<and> (\<not> has_messages_key result \<and> \<not> is_BaseMessage result \<and> (\<forall>xs. result \<noteq> PList xs) \<longrightarrow>
        fst (sales_assistant uid str_py runnable state config w) =
          Inr (PDict [(''messages'', PList [PMsg (Message AI (str_py result) [])])]))"
proof -
  have out: "fst (sales_assistant uid str_py runnable state config w) =
      Inr (normalize_result str_py result)"
    using assms by (rule sales_assistant_result)
  show ?thesis
    unfolding out
    by (auto simp: normalize_result_dict normalize_result_message normalize_result_list
        normalize_result_other messages_dict_def AIMessage_def)
qed

theorem sales_assistant_normalization_precedence_witness:
  "fst (sales_assistant (PStr ''user-1'') (\<lambda>v. ''repr'')
          (\<lambda>s c. Inr (PDict [(''other'', PNone), (''messages'', PInt 7)]))
          (PDict []) PNone \<lparr>thread_id_var = None, user_id_var = None, trace = []\<rparr>) =
     Inr (PDict [(''messages'', PInt 7)])
   \<and> fst (sales_assistant (PStr ''user-1'') (\<lambda>v. ''repr'')
          (\<lambda>s c. Inr (PMsg (Message AI ''hello'' [])))
          (PDict []) PNone \<lparr>thread_id_var = None, user_id_var = None, trace = []\<rparr>) =
     Inr (PDict [(''messages'', PList [PMsg (Message AI ''hello'' [])])])
   \<and> fst (sales_assistant (PStr ''user-1'') (\<lambda>v. ''repr'')
          (\<lambda>s c. Inr (PList [PMsg (Message AI ''a'' []), PMsg (Message Tool_role ''b'' [])]))
          (PDict []) PNone \<lparr>thread_id_var = None, user_id_var = None, trace = []\<rparr>) =
     Inr (PDict [(''messages'', PList [PMsg (Message AI ''a'' []), PMsg (Message Tool_role ''b'' [])])])
   \<and> fst (sales_assistant (PStr ''user-1'') (\<lambda>v. ''repr'')
          (\<lambda>s c. Inr (PList [PMsg (Message AI ''a'' []), PInt 3]))
          (PDict []) PNone \<lparr>thread_id_var = None, user_id_var = None, trace = []\<rparr>) =
     Inr (PDict [(''messages'', PList [PMsg (Message AI ''repr'' [])])])
   \<and> fst (sales_assistant (PStr ''user-1'') (\<lambda>v. ''repr'')
          (\<lambda>s c. Inr (PDict [(''other'', PNone)]))
          (PDict []) PNone \<lparr>thread_id_var = None, user_id_var = None, trace = []\<rparr>) =
     Inr (PDict [(''messages'', PList [PMsg (Message AI ''repr'' [])])])"
  using
    sales_assistant_normalization_precedence
      [of "\<lambda>s c. Inr (PDict [(''other'', PNone), (''messages'', PInt 7)])" "PDict []" PNone
          "PDict [(''other'', PNone), (''messages'', PInt 7)]" "PStr ''user-1''" "\<lambda>v. ''repr''"
          "\<lparr>thread_id_var = None, user_id_var = None, trace = []\<rparr>"]
    sales_assistant_normalization_precedence
      [of "\<lambda>s c. Inr (PMsg (Message AI ''hello'' []))" "PDict []" PNone
          "PMsg (Message AI ''hello'' [])" "PStr ''user-1''" "\<lambda>v. ''repr''"
          "\<lparr>thread_id_var = None, user_id_var = None, trace = []\<rparr>"]
    sales_assistant_normalization_precedence
      [of "\<lambda>s c. Inr (PList [PMsg (Message AI ''a'' []), PMsg (Message Tool_role ''b'' [])])"
          "PDict []" PNone
          "PList [PMsg (Message AI ''a'' []), PMsg (Message Tool_role ''b'' [])]"
          "PStr ''user-1''" "\<lambda>v. ''repr''"
          "\<lparr>thread_id_var = None, user_id_var = None, trace = []\<rparr>"]
    sales_assistant_normalization_precedence
      [of "\<lambda>s c. Inr (PList [PMsg (Message AI ''a'' []), PInt 3])" "PDict []" PNone
          "PList [PMsg (Message AI ''a'' []), PInt 3]" "PStr ''user-1''" "\<lambda>v. ''repr''"
          "\<lparr>thread_id_var = None, user_id_var = None, trace = []\<rparr>"]
    sales_assistant_normalization_precedence
      [of "\<lambda>s c. Inr (PDict [(''other'', PNone)])" "PDict []" PNone
          "PDict [(''other'', PNone)]" "PStr ''user-1''" "\<lambda>v. ''repr''"
          "\<lparr>thread_id_var = None, user_id_var = None, trace = []\<rparr>"]
  by simp


text \<open>
  C10. When the pipeline returns the empty list, \<^verbatim>\<open>sales_assistant\<close> returns
  \<^verbatim>\<open>{"messages": []}\<close>: the test that every element is a message holds vacuously, so
  the empty list is passed through and no synthetic message is made.
\<close>

theorem sales_assistant_empty_list:
  assumes "runnable state config = Inr (PList [])"
  shows "fst (sales_assistant uid str_py runnable state config w) =
           Inr (PDict [(''messages'', PList [])])"
  using assms by (simp add: sales_assistant_result normalize_result_list messages_dict_def)

theorem sales_assistant_empty_list_witness:
  "fst (sales_assistant (PStr ''user-1'') (\<lambda>v. ''repr'') (\<lambda>s c. Inr (PList []))
          (PDict [(''messages'', PList [])])
          (PDict [(''configurable'', PDict [(''thread_id'', PStr ''t-1'')])])
          \<lparr>thread_id_var = None, user_id_var = None, trace = []\<rparr>) =
     Inr (PDict [(''messages'', PList [])])"
  using sales_assistant_empty_list
    [of "\<lambda>s c. Inr (PList [])" "PDict [(''messages'', PList [])]"
        "PDict [(''configurable'', PDict [(''thread_id'', PStr ''t-1'')])]"
        "PStr ''user-1''" "\<lambda>v. ''repr''"
        "\<lparr>thread_id_var = None, user_id_var = None, trace = []\<rparr>"]
  by simp


section \<open>Malformed configs: sales recovers, support fails\<close>

text \<open>
  C3. For every config that lacks the key path \<^verbatim>\<open>config["configurable"]["thread_id"]\<close>
  (it is not a dict, it has no \<^verbatim>\<open>configurable\<close> entry, that entry is not a dict, or
  it has no \<^verbatim>\<open>thread_id\<close>), thread-id resolution in \<^verbatim>\<open>sales_assistant\<close> raises
  nothing and yields \<^verbatim>\<open>"default-thread"\<close>: that id is written to the thread context,
  the pipeline is reached, and an error of the invocation can only be the pipeline's.
\<close>

theorem sales_assistant_malformed_config_default:
  assumes "thread_id_path config = None"
  shows "sales_thread_id config = Inr (PStr ''default-thread'')
     \<and> thread_id_var (snd (sales_assistant uid str_py runnable state config w)) =
         Some (PStr ''default-thread'')
     \<and> trace (snd (sales_assistant uid str_py runnable state config w)) =
         trace w @ [Set_thread_id (PStr ''default-thread''), Set_user_id uid,
                    Pipeline_invoked state config]
     \<and> (\<forall>e. fst (sales_assistant uid str_py runnable state config w) = Inl e \<longrightarrow>
           runnable state config = Inl e)"
proof -
  have "sales_thread_id config = Inr (PStr ''default-thread'')"
    using assms by (rule sales_thread_id_default)
  moreover have "thread_id_var (snd (sales_assistant uid str_py runnable state config w)) =
      Some (PStr ''default-thread'')"
    using assms by (simp add: sales_assistant_run)
  moreover have "trace (snd (sales_assistant uid str_py runnable state config w)) =
      trace w @ [Set_thread_id (PStr ''default-thread''), Set_user_id uid,
                 Pipeline_invoked state config]"
    using assms by (simp add: sales_assistant_run)
  moreover have "\<forall>e. fst (sales_assistant uid str_py runnable state config w) = Inl e \<longrightarrow>
      runnable state config = Inl e"
    by (simp add: sales_assistant_run split: sum.splits)
  ultimately show ?thesis by blast
qed

theorem sales_assistant_malformed_config_default_witness:
  "thread_id_path PNone = None
   \<and> sales_thread_id PNone = Inr (PStr ''default-thread'')
   \<and> thread_id_path (PDict [(''tags'', PList [])]) = None
   \<and> sales_thread_id (PDict [(''tags'', PList [])]) = Inr (PStr ''default-thread'')
   \<and> thread_id_path (PDict [(''configurable'', PStr ''oops'')]) = None
   \<and> sales_thread_id (PDict [(''configurable'', PStr ''oops'')]) = Inr (PStr ''default-thread'')
   \<and> thread_id_path (PDict [(''configurable'', PDict [(''user'', PInt 1)])]) = None
   \<and> sales_thread_id (PDict [(''configurable'', PDict [(''user'', PInt 1)])]) =
       Inr (PStr ''default-thread'')
   \<and> trace (snd (sales_assistant (PStr ''user-1'') (\<lambda>v. ''repr'') (\<lambda>s c. Inl RuntimeError)
        (PDict []) (PDict [(''configurable'', PDict [(''user'', PInt 1)])])
        \<lparr>thread_id_var = None, user_id_var = None, trace = []\<rparr>)) =
       [Set_thread_id (PStr ''default-thread''), Set_user_id (PStr ''user-1''),
        Pipeline_invoked (PDict []) (PDict [(''configurable'', PDict [(''user'', PInt 1)])])]"
proof -
  have p1: "thread_id_path PNone = None"
    and p2: "thread_id_path (PDict [(''tags'', PList [])]) = None"
    and p3: "thread_id_path (PDict [(''configurable'', PStr ''oops'')]) = None"
    and p4: "thread_id_path (PDict [(''configurable'', PDict [(''user'', PInt 1)])]) = None"
    by (simp_all add: thread_id_path_def)
  show ?thesis
    using p1 p2 p3 p4
      sales_assistant_malformed_config_default [OF p1]
      sales_assistant_malformed_config_default [OF p2]
      sales_assistant_malformed_config_default [OF p3]
      sales_assistant_malformed_config_default
        [OF p4, of "PStr ''user-1''" "\<lambda>v. ''repr''" "\<lambda>s c. Inl RuntimeError" "PDict []"
           "\<lparr>thread_id_var = None, user_id_var = None, trace = []\<rparr>"]
    by simp
qed


text \<open>
  C4. For every config that lacks the key path \<^verbatim>\<open>config["configurable"]["thread_id"]\<close>,
  \<^verbatim>\<open>support_assistant\<close> fails: the subscript raises (\<^verbatim>\<open>KeyError\<close> or \<^verbatim>\<open>TypeError\<close>),
  the error leaves the function, and neither the thread context is written nor the
  pipeline invoked. On the same config \<^verbatim>\<open>sales_assistant\<close> recovers: it uses
  \<^verbatim>\<open>"default-thread"\<close> and its outcome is the pipeline's, normalised.
\<close>

theorem support_fails_where_sales_defaults:
  assumes "thread_id_path config = None"
  shows "(\<exists>e. support_assistant support_runnable state config w = (Inl e, w)
              \<and> (e = KeyError \<or> e = TypeError))
     \<and> sales_thread_id config = Inr (PStr ''default-thread'')
     \<and> fst (sales_assistant uid str_py runnable state config w) =
         (case runnable state config of
            Inl e \<Rightarrow> Inl e
          | Inr result \<Rightarrow> Inr (normalize_result str_py result))"
proof -
  have "\<exists>e. support_assistant support_runnable state config w = (Inl e, w)
            \<and> (e = KeyError \<or> e = TypeError)"
  proof (cases config)
    case (PDict kvs)
    show ?thesis
    proof (cases "map_of kvs ''configurable''")
      case None
      with PDict show ?thesis by (simp add: support_assistant_def)
    next
      case (Some c)
      with PDict assms show ?thesis
        by (cases c) (simp_all add: support_assistant_def thread_id_path_def)
    qed
  qed (simp_all add: support_assistant_def)
  moreover have "sales_thread_id config = Inr (PStr ''default-thread'')"
    using assms by (rule sales_thread_id_default)
  moreover have "fst (sales_assistant uid str_py runnable state config w) =
      (case runnable state config of
         Inl e \<Rightarrow> Inl e
       | Inr result \<Rightarrow> Inr (normalize_result str_py result))"
    by (simp add: sales_assistant_run)
  ultimately show ?thesis by blast
qed

theorem support_fails_where_sales_defaults_witness:
  "thread_id_path (PDict [(''configurable'', PDict [])]) = None
   \<and> support_assistant (\<lambda>s c. Inr (PMsg (Message AI ''hi'' []))) (PDict [])
        (PDict [(''configurable'', PDict [])])
        \<lparr>thread_id_var = None, user_id_var = None, trace = []\<rparr> =
       (Inl KeyError, \<lparr>thread_id_var = None, user_id_var = None, trace = []\<rparr>)
   \<and> fst (sales_assistant (PStr ''user-1'') (\<lambda>v. ''repr'')
        (\<lambda>s c. Inr (PMsg (Message AI ''hi'' []))) (PDict [])
        (PDict [(''configurable'', PDict [])])
        \<lparr>thread_id_var = None, user_id_var = None, trace = []\<rparr>) =
       Inr (PDict [(''messages'', PList [PMsg (Message AI ''hi'' [])])])"
proof -
  have p: "thread_id_path (PDict [(''configurable'', PDict [])]) = None"
    by (simp add: thread_id_path_def)
  show ?thesis
    using p
      support_fails_where_sales_defaults
        [OF p, of "\<lambda>s c. Inr (PMsg (Message AI ''hi'' []))" "PDict []"
           "\<lparr>thread_id_var = None, user_id_var = None, trace = []\<rparr>"
           "PStr ''user-1''" "\<lambda>v. ''repr''" "\<lambda>s c. Inr (PMsg (Message AI ''hi'' []))"]
    by (simp add: support_assistant_def normalize_result_message messages_dict_def)
qed


section \<open>Context writes and the shape of the returned dict\<close>

text \<open>
  C9, as stated, fails: \<^verbatim>\<open>support_assistant\<close> never calls \<^verbatim>\<open>set_user_id\<close>. With a
  config that has a thread id and a context whose user id is unset, its trace holds no
  user-id write and the user id is still unset afterwards.
\<close>

theorem support_assistant_no_user_id_write:
  "\<not> list_ex is_user_id_write
       (trace (snd (support_assistant (\<lambda>s c. Inr (PMsg (Message AI ''hi'' []))) (PDict [])
          (PDict [(''configurable'', PDict [(''thread_id'', PStr ''t-1'')])])
          \<lparr>thread_id_var = None, user_id_var = None, trace = []\<rparr>)))
   \<and> user_id_var (snd (support_assistant (\<lambda>s c. Inr (PMsg (Message AI ''hi'' []))) (PDict [])
          (PDict [(''configurable'', PDict [(''thread_id'', PStr ''t-1'')])])
          \<lparr>thread_id_var = None, user_id_var = None, trace = []\<rparr>)) = None"
  by (simp add: support_assistant_def set_thread_id_def invoke_def)

text \<open>
  C9, amended. \<^verbatim>\<open>sales_assistant\<close> always resolves a thread id, records it and then
  the default user id in the thread context, and only then invokes the pipeline; it
  changes nothing else. \<^verbatim>\<open>support_assistant\<close>, given a config with the key path,
  records that thread id and then invokes the pipeline, leaving the user id as it was;
  given a config without the key path it writes nothing.
\<close>

theorem context_writes_precede_pipeline:
  "(\<exists>tid. sales_thread_id config = Inr tid
      \<and> snd (sales_assistant uid str_py runnable state config w) =
          w\<lparr>thread_id_var := Some tid, user_id_var := Some uid,
            trace := trace w @ [Set_thread_id tid, Set_user_id uid,
                                Pipeline_invoked state config]\<rparr>)
   \<and> (\<forall>t. thread_id_path config = Some t \<longrightarrow>
        snd (support_assistant support_runnable state config w) =
          w\<lparr>thread_id_var := Some t,
            trace := trace w @ [Set_thread_id t, Pipeline_invoked state config]\<rparr>)
   \<and> (thread_id_path config = None \<longrightarrow>
        snd (support_assistant support_runnable state config w) = w)"
proof -
  have "\<exists>tid. sales_thread_id config = Inr tid
      \<and> snd (sales_assistant uid str_py runnable state config w) =
          w\<lparr>thread_id_var := Some tid, user_id_var := Some uid,
            trace := trace w @ [Set_thread_id tid, Set_user_id uid,
                                Pipeline_invoked state config]\<rparr>"
    by (simp add: sales_thread_id_total sales_assistant_run)
  moreover have "\<forall>t. thread_id_path config = Some t \<longrightarrow>
        snd (support_assistant support_runnable state config w) =
          w\<lparr>thread_id_var := Some t,
            trace := trace w @ [Set_thread_id t, Pipeline_invoked state config]\<rparr>"
    by (simp add: support_path_present)
  moreover have "thread_id_path config = None \<longrightarrow>
        snd (support_assistant support_runnable state config w) = w"
    using support_path_missing [of config support_runnable state w] by auto
  ultimately show ?thesis by blast
qed

theorem context_writes_precede_pipeline_witness:
  "snd (sales_assistant (PStr ''user-1'') (\<lambda>v. ''repr'') (\<lambda>s c. Inl RuntimeError) (PDict [])
         (PDict [(''configurable'', PDict [(''thread_id'', PStr ''t-1'')])])
         \<lparr>thread_id_var = Some (PStr ''old''), user_id_var = None, trace = []\<rparr>) =
     \<lparr>thread_id_var = Some (PStr ''t-1''), user_id_var = Some (PStr ''user-1''),
      trace = [Set_thread_id (PStr ''t-1''), Set_user_id (PStr ''user-1''),
               Pipeline_invoked (PDict [])
                 (PDict [(''configurable'', PDict [(''thread_id'', PStr ''t-1'')])])]\<rparr>
   \<and> snd (support_assistant (\<lambda>s c. Inl RuntimeError) (PDict [])
         (PDict [(''configurable'', PDict [(''thread_id'', PStr ''t-1'')])])
         \<lparr>thread_id_var = Some (PStr ''old''), user_id_var = None, trace = []\<rparr>) =
     \<lparr>thread_id_var = Some (PStr ''t-1''), user_id_var = None,
      trace = [Set_thread_id (PStr ''t-1''),
               Pipeline_invoked (PDict [])
                 (PDict [(''configurable'', PDict [(''thread_id'', PStr ''t-1'')])])]\<rparr>"
  using context_writes_precede_pipeline
    [of "PDict [(''configurable'', PDict [(''thread_id'', PStr ''t-1'')])]"
        "PStr ''user-1''" "\<lambda>v. ''repr''" "\<lambda>s c. Inl RuntimeError" "PDict []"
        "\<lparr>thread_id_var = Some (PStr ''old''), user_id_var = None, trace = []\<rparr>"
        "\<lambda>s c. Inl RuntimeError"]
  by (auto simp: thread_id_path_def sales_thread_id_def)


text \<open>
  C2, as stated, fails in four ways. \<^verbatim>\<open>sales_assistant\<close> passes the empty list
  through, and passes the \<^verbatim>\<open>messages\<close> entry of a dict through whatever it is;
  \<^verbatim>\<open>support_assistant\<close> stores the pipeline's raw result, here a single message and
  not a list of messages, and returns nothing at all when the config lacks the key path.
\<close>

theorem messages_not_always_nonempty_seq:
  "\<not> returns_message_seq
       (fst (sales_assistant (PStr ''user-1'') (\<lambda>v. ''repr'') (\<lambda>s c. Inr (PList []))
          (PDict []) (PDict []) \<lparr>thread_id_var = None, user_id_var = None, trace = []\<rparr>))
   \<and> \<not> returns_message_seq
       (fst (sales_assistant (PStr ''user-1'') (\<lambda>v. ''repr'')
          (\<lambda>s c. Inr (PDict [(''messages'', PInt 7)]))
          (PDict []) (PDict []) \<lparr>thread_id_var = None, user_id_var = None, trace = []\<rparr>))
   \<and> \<not> returns_message_seq
       (fst (support_assistant (\<lambda>s c. Inr (PMsg (Message AI ''hi'' []))) (PDict [])
          (PDict [(''configurable'', PDict [(''thread_id'', PStr ''t-1'')])])
          \<lparr>thread_id_var = None, user_id_var = None, trace = []\<rparr>))
   \<and> \<not> returns_message_seq
       (fst (support_assistant (\<lambda>s c. Inr (PList [PMsg (Message AI ''hi'' [])])) (PDict [])
          (PDict []) \<lparr>thread_id_var = None, user_id_var = None, trace = []\<rparr>))"
  by (simp add: sales_assistant_run normalize_result_def messages_dict_def
      support_assistant_def set_thread_id_def invoke_def)

text \<open>
  C2, amended. Whenever the pipeline returns a value, \<^verbatim>\<open>sales_assistant\<close> returns a
  dict whose only key is \<^verbatim>\<open>messages\<close>. Its value is a non-empty list of messages
  unless the pipeline returned the empty list, which is passed through, or a dict with a
  key \<^verbatim>\<open>messages\<close>, whose entry is passed through unchanged. \<^verbatim>\<open>support_assistant\<close>,
  when the config has the key path and the pipeline returns a value, returns
  \<^verbatim>\<open>{"messages": value}\<close> with that value as it is.
\<close>

theorem assistants_messages_shape:
  "(runnable state config = Inr result \<longrightarrow>
      (\<exists>v. fst (sales_assistant uid str_py runnable state config w) =
              Inr (PDict [(''messages'', v)])
         \<and> (\<not> has_messages_key result \<and> result \<noteq> PList [] \<longrightarrow> nonempty_message_seq v)
         \<and> (result = PList [] \<longrightarrow> v = PList [])
         \<and> (\<forall>kvs u. result = PDict kvs \<and> map_of kvs ''messages'' = Some u \<longrightarrow> v = u)))
   \<and> (thread_id_path config = Some t \<and> support_runnable state config = Inr result' \<longrightarrow>
        fst (support_assistant support_runnable state config w) =
          Inr (PDict [(''messages'', result')]))"
proof -
  have sales: "\<exists>v. normalize_result str_py result = PDict [(''messages'', v)]
         \<and> (\<not> has_messages_key result \<and> result \<noteq> PList [] \<longrightarrow> nonempty_message_seq v)
         \<and> (result = PList [] \<longrightarrow> v = PList [])
         \<and> (\<forall>kvs u. result = PDict kvs \<and> map_of kvs ''messages'' = Some u \<longrightarrow> v = u)"
  proof (cases result)
    case (PList xs)
    then show ?thesis
      by (cases xs) (simp_all add: normalize_result_def messages_dict_def AIMessage_def)
  next
    case (PDict kvs)
    then show ?thesis
      by (cases "map_of kvs ''messages''")
        (simp_all add: normalize_result_def messages_dict_def AIMessage_def)
  qed (simp_all add: normalize_result_def messages_dict_def AIMessage_def)
  have support: "thread_id_path config = Some t \<and> support_runnable state config = Inr result' \<longrightarrow>
        fst (support_assistant support_runnable state config w) =
          Inr (PDict [(''messages'', result')])"
    by (simp add: support_path_present messages_dict_def)
  from sales support show ?thesis
    by (simp add: sales_assistant_result)
qed

theorem assistants_messages_shape_witness:
  "fst (sales_assistant (PStr ''user-1'') (\<lambda>v. ''repr'') (\<lambda>s c. Inr (PInt 42)) (PDict [])
         (PDict [(''configurable'', PDict [(''thread_id'', PStr ''t-1'')])])
         \<lparr>thread_id_var = None, user_id_var = None, trace = []\<rparr>) =
     Inr (PDict [(''messages'', PList [PMsg (Message AI ''repr'' [])])])
   \<and> nonempty_message_seq (PList [PMsg (Message AI ''repr'' [])])
   \<and> fst (support_assistant (\<lambda>s c. Inr (PMsg (Message AI ''hi'' []))) (PDict [])
         (PDict [(''configurable'', PDict [(''thread_id'', PStr ''t-1'')])])
         \<lparr>thread_id_var = None, user_id_var = None, trace = []\<rparr>) =
     Inr (PDict [(''messages'', PMsg (Message AI ''hi'' []))])"
  using assistants_messages_shape
    [of "\<lambda>s c. Inr (PInt 42)" "PDict []"
        "PDict [(''configurable'', PDict [(''thread_id'', PStr ''t-1'')])]"
        "PInt 42" "PStr ''user-1''" "\<lambda>v. ''repr''"
        "\<lparr>thread_id_var = None, user_id_var = None, trace = []\<rparr>"
        "PStr ''t-1''" "\<lambda>s c. Inr (PMsg (Message AI ''hi'' []))" "PMsg (Message AI ''hi'' [])"]
  by (auto simp: thread_id_path_def sales_assistant_run normalize_result_def messages_dict_def
      AIMessage_def)

section \<open>The search tool provider: what the decorator decides\<close>

lemma strip_empty_iff: "strip s = [] \<longleftrightarrow> list_all is_space s"
proof
  assume "strip s = []"
  then have all: "\<forall>c \<in> set (dropWhile is_space s). is_space c"
    unfolding strip_def rev_is_Nil_conv dropWhile_eq_Nil_conv set_rev .
  have "dropWhile is_space s = []"
  proof (rule ccontr)
    assume ne: "dropWhile is_space s \<noteq> []"
    then have "\<not> is_space (hd (dropWhile is_space s))"
      by (rule hd_dropWhile)
    moreover from ne all have "is_space (hd (dropWhile is_space s))"
      by simp
    ultimately show False by simp
  qed
  then show "list_all is_space s"
    by (simp add: dropWhile_eq_Nil_conv list_all_iff)
next
  assume "list_all is_space s"
  then show "strip s = []"
    by (auto simp: strip_def list_all_iff dest: set_dropWhileD)
qed

lemma credential_missing_iff:
  "credential_missing env \<longleftrightarrow> strip (environ_get env ''BRAVE_API_KEY'' []) = []"
  by (simp add: credential_missing_def environ_get_def strip_empty_iff split: option.splits)

lemma rejects_keyword_name_langchain_tool: "rejects_keyword_name langchain_tool"
  by (simp add: rejects_keyword_name_def langchain_tool_def)

lemma accepts_positional_name_langchain_tool: "accepts_positional_name langchain_tool"
  by (auto simp: accepts_positional_name_def langchain_tool_def)

lemma load_brave_tool_no_credential:
  "credential_missing env \<Longrightarrow>
     load_brave_tool tool mcp env =
       (case tool (By_keyword_name ''brave_web_search_unavailable'') unavailable_fn of
          Inl e \<Rightarrow> Inl e
        | Inr t \<Rightarrow> Inr [t])"
  by (simp add: load_brave_tool_def credential_missing_iff)

lemma load_brave_tool_live_failure:
  assumes "\<not> credential_missing env"
    and "live_tools tool mcp (strip (environ_get env ''BRAVE_API_KEY'' [])) = Inl e"
  shows "load_brave_tool tool mcp env = fallback_tools tool"
  using assms by (simp add: load_brave_tool_def credential_missing_iff)

lemma live_tools_discover_failure:
  "discover mcp key = Inl e \<Longrightarrow> live_tools tool mcp key = Inl e"
  by (simp add: live_tools_def)

lemma fallback_tools_keyword_rejected:
  "rejects_keyword_name tool \<Longrightarrow> \<exists>e. fallback_tools tool = Inl e"
  by (simp add: fallback_tools_def rejects_keyword_name_def split: sum.splits)

lemma wrap_all_accepted:
  "accepts_every_call tool \<Longrightarrow>
     wrap_all tool f ns = Inr (map (\<lambda>n. \<lparr>tool_name = fn_name f, tool_run = fn_body f\<rparr>) ns)"
  by (induction ns) (simp_all add: accepts_every_call_def)

text \<open>Were the decorator to take every call, lines 33--38 and 114--126 would do what
  their comments say.\<close>

lemma load_brave_tool_no_credential_if_accepted:
  assumes "accepts_every_call tool" and "credential_missing env"
  shows "load_brave_tool tool mcp env =
           Inr [\<lparr>tool_name = ''brave_web_search_unavailable'',
                 tool_run = (\<lambda>query. Inr unavailable_message)\<rparr>]"
  using assms
  by (simp add: load_brave_tool_no_credential accepts_every_call_def unavailable_fn_def)

lemma load_brave_tool_fallback_if_accepted:
  assumes "accepts_every_call tool" and "\<not> credential_missing env"
    and "discover mcp (strip (environ_get env ''BRAVE_API_KEY'' [])) = Inl e"
  shows "load_brave_tool tool mcp env =
           Inr [\<lparr>tool_name = ''brave_web_search'',
                 tool_run = (\<lambda>query. Inr (''[brave] (fallback) search results for: '' @ query))\<rparr>,
                \<lparr>tool_name = ''brave_news_search'',
                 tool_run = (\<lambda>query. Inr (''[brave-news] (fallback) search results for: '' @ query))\<rparr>]"
proof -
  have "load_brave_tool tool mcp env = fallback_tools tool"
    using assms(2) live_tools_discover_failure [OF assms(3)]
    by (rule load_brave_tool_live_failure)
  with assms(1) show ?thesis
    by (simp add: fallback_tools_def accepts_every_call_def fallback_web_fn_def
        fallback_news_fn_def)
qed

lemma load_brave_tool_nonempty_if_accepted:
  assumes "accepts_every_call tool"
  shows "\<exists>tools. load_brave_tool tool mcp env = Inr tools \<and> tools \<noteq> []"
proof (cases "credential_missing env")
  case True
  with assms show ?thesis
    by (simp add: load_brave_tool_no_credential_if_accepted)
next
  case False
  let ?key = "strip (environ_get env ''BRAVE_API_KEY'' [])"
  have fb: "\<exists>tools. fallback_tools tool = Inr tools \<and> tools \<noteq> []"
    using assms by (simp add: fallback_tools_def accepts_every_call_def)
  have live: "(\<exists>e. live_tools tool mcp ?key = Inl e)
      \<or> (\<exists>tools. live_tools tool mcp ?key = Inr tools \<and> tools \<noteq> [])"
  proof (cases "discover mcp ?key")
    case (Inl e)
    then show ?thesis by (simp add: live_tools_def)
  next
    case (Inr listed)
    with assms show ?thesis
      by (simp add: live_tools_def Let_def wrap_all_accepted accepts_every_call_def)
  qed
  from False fb live show ?thesis
    by (auto simp: load_brave_tool_def credential_missing_iff)
qed


text \<open>
  C5, the defect. With no credential (\<^verbatim>\<open>BRAVE_API_KEY\<close> unset or blank) the provider
  decorates its only tool with \<^verbatim>\<open>@tool(name="brave_web_search_unavailable")\<close>, at
  line 34, outside every \<^verbatim>\<open>try\<close>. A decorator that has no keyword \<^verbatim>\<open>name\<close> raises
  \<^verbatim>\<open>TypeError\<close> there, and the provider raises it in turn instead of returning the
  one unavailable tool.
\<close>

theorem load_brave_tool_no_credential_raises:
  assumes "rejects_keyword_name tool" and "credential_missing env"
  shows "load_brave_tool tool mcp env = Inl TypeError"
  using assms by (simp add: load_brave_tool_no_credential rejects_keyword_name_def)

theorem load_brave_tool_no_credential_raises_witness:
  "rejects_keyword_name langchain_tool
   \<and> credential_missing (\<lambda>k. None)
   \<and> load_brave_tool langchain_tool unreachable_mcp (\<lambda>k. None) = Inl TypeError
   \<and> credential_missing [''BRAVE_API_KEY'' \<mapsto> ''  '']
   \<and> load_brave_tool langchain_tool unreachable_mcp [''BRAVE_API_KEY'' \<mapsto> ''  ''] = Inl TypeError"
proof -
  have a: "credential_missing (\<lambda>k. None)"
    by (simp add: credential_missing_def)
  have b: "credential_missing [''BRAVE_API_KEY'' \<mapsto> ''  '']"
    by (simp add: credential_missing_def is_space_def)
  show ?thesis
    using a b rejects_keyword_name_langchain_tool
      load_brave_tool_no_credential_raises [OF rejects_keyword_name_langchain_tool a]
      load_brave_tool_no_credential_raises [OF rejects_keyword_name_langchain_tool b]
    by simp
qed


text \<open>
  C6, the defect. With a credential and a live integration that fails, the handler of
  lines 114--126 decorates its second tool with \<^verbatim>\<open>@tool(name="brave_news_search")\<close>.
  A decorator that has no keyword \<^verbatim>\<open>name\<close> raises there (unless it has refused the
  first stub already), inside the handler, so the provider raises instead of returning
  the two fallback tools.
\<close>

theorem load_brave_tool_fallback_raises:
  assumes "rejects_keyword_name tool" and "\<not> credential_missing env"
    and "discover mcp (strip (environ_get env ''BRAVE_API_KEY'' [])) = Inl e"
  shows "\<exists>e'. load_brave_tool tool mcp env = Inl e'"
proof -
  have "load_brave_tool tool mcp env = fallback_tools tool"
    using assms(2) live_tools_discover_failure [OF assms(3)]
    by (rule load_brave_tool_live_failure)
  with fallback_tools_keyword_rejected [OF assms(1)] show ?thesis
    by simp
qed

theorem load_brave_tool_fallback_raises_witness:
  "rejects_keyword_name langchain_tool
   \<and> \<not> credential_missing [''BRAVE_API_KEY'' \<mapsto> ''k1'']
   \<and> discover unreachable_mcp (strip (environ_get [''BRAVE_API_KEY'' \<mapsto> ''k1''] ''BRAVE_API_KEY'' []))
       = Inl ImportError
   \<and> (\<exists>e'. load_brave_tool langchain_tool unreachable_mcp [''BRAVE_API_KEY'' \<mapsto> ''k1''] = Inl e')"
proof -
  have a: "\<not> credential_missing [''BRAVE_API_KEY'' \<mapsto> ''k1'']"
    by (simp add: credential_missing_def is_space_def)
  have b: "discover unreachable_mcp
      (strip (environ_get [''BRAVE_API_KEY'' \<mapsto> ''k1''] ''BRAVE_API_KEY'' [])) = Inl ImportError"
    by (simp add: unreachable_mcp_def)
  show ?thesis
    using a b rejects_keyword_name_langchain_tool
      load_brave_tool_fallback_raises [OF rejects_keyword_name_langchain_tool a b]
    by simp
qed


text \<open>
  C7, the defect. The provider does propagate failures: with a decorator that has no
  keyword \<^verbatim>\<open>name\<close>, it raises whenever the credential is missing and whenever the
  body of the \<^verbatim>\<open>try\<close> fails, so it returns a list of tools only if the credential is
  set and the live path itself produced that list.
\<close>

theorem load_brave_tool_failure_propagates:
  assumes "rejects_keyword_name tool"
    and "credential_missing env
         \<or> (\<exists>e. live_tools tool mcp (strip (environ_get env ''BRAVE_API_KEY'' [])) = Inl e)"
  shows "\<exists>e'. load_brave_tool tool mcp env = Inl e'"
proof (cases "credential_missing env")
  case True
  with assms(1) show ?thesis
    by (simp add: load_brave_tool_no_credential rejects_keyword_name_def)
next
  case False
  with assms(2) obtain e
    where "live_tools tool mcp (strip (environ_get env ''BRAVE_API_KEY'' [])) = Inl e"
    by blast
  with False have "load_brave_tool tool mcp env = fallback_tools tool"
    by (rule load_brave_tool_live_failure)
  with fallback_tools_keyword_rejected [OF assms(1)] show ?thesis
    by simp
qed

theorem load_brave_tool_failure_propagates_witness:
  "rejects_keyword_name langchain_tool
   \<and> credential_missing (\<lambda>k. None)
   \<and> load_brave_tool langchain_tool unreachable_mcp (\<lambda>k. None) = Inl TypeError
   \<and> live_tools langchain_tool unreachable_mcp
       (strip (environ_get [''BRAVE_API_KEY'' \<mapsto> ''k1''] ''BRAVE_API_KEY'' [])) = Inl ImportError
   \<and> load_brave_tool langchain_tool unreachable_mcp [''BRAVE_API_KEY'' \<mapsto> ''k1''] = Inl ValueError"
proof -
  have a: "credential_missing (\<lambda>k. None)"
    by (simp add: credential_missing_def)
  have b: "live_tools langchain_tool unreachable_mcp
      (strip (environ_get [''BRAVE_API_KEY'' \<mapsto> ''k1''] ''BRAVE_API_KEY'' [])) = Inl ImportError"
    by (simp add: live_tools_def unreachable_mcp_def)
  from a have a': "credential_missing (\<lambda>k. None)
      \<or> (\<exists>e. live_tools langchain_tool unreachable_mcp
               (strip (environ_get (\<lambda>k. None) ''BRAVE_API_KEY'' [])) = Inl e)"
    by (rule disjI1)
  from b have b': "credential_missing [''BRAVE_API_KEY'' \<mapsto> ''k1'']
      \<or> (\<exists>e. live_tools langchain_tool unreachable_mcp
               (strip (environ_get [''BRAVE_API_KEY'' \<mapsto> ''k1''] ''BRAVE_API_KEY'' [])) = Inl e)"
    by blast
  show ?thesis
    using a b rejects_keyword_name_langchain_tool
      load_brave_tool_failure_propagates [OF rejects_keyword_name_langchain_tool a']
      load_brave_tool_failure_propagates [OF rejects_keyword_name_langchain_tool b']
    by (auto simp: load_brave_tool_def environ_get_def strip_def is_space_def live_tools_def
        unreachable_mcp_def
        fallback_tools_def langchain_tool_def fallback_web_fn_def unavailable_fn_def)
qed


text \<open>
  C8. The synchronous provider takes no integration at all: it reads the credential and
  decorates two documented functions with the name given by position. With a decorator
  that accepts that form it never raises, with or without a credential, and returns
  exactly the two tools \<^verbatim>\<open>brave_web_search\<close> and \<^verbatim>\<open>brave_news_search\<close>; each of them,
  when called, returns the unavailable message if the credential read was missing, and
  otherwise its placeholder string that ends with the query.
\<close>

theorem sync_provider_two_tools:
  assumes "accepts_positional_name tool"
  shows "\<exists>web news.
      get_brave_web_search_tool_sync tool env = Inr [web, news]
      \<and> tool_name web = ''brave_web_search''
      \<and> tool_name news = ''brave_news_search''
      \<and> (\<forall>query. tool_run web query =
            (if credential_missing env then Inr unavailable_message
             else Inr (''[brave] search results for: '' @ query)))
      \<and> (\<forall>query. tool_run news query =
            (if credential_missing env then Inr unavailable_message
             else Inr (''[brave-news] search results for: '' @ query)))"
proof -
  let ?key = "strip (environ_get env ''BRAVE_API_KEY'' [])"
  have web: "tool (By_position ''brave_web_search'') (sync_web_fn ?key) =
      Inr \<lparr>tool_name = ''brave_web_search'', tool_run = fn_body (sync_web_fn ?key)\<rparr>"
    using assms by (simp add: accepts_positional_name_def sync_web_fn_def)
  have news: "tool (By_position ''brave_news_search'') (sync_news_fn ?key) =
      Inr \<lparr>tool_name = ''brave_news_search'', tool_run = fn_body (sync_news_fn ?key)\<rparr>"
    using assms by (simp add: accepts_positional_name_def sync_news_fn_def)
  have "get_brave_web_search_tool_sync tool env =
      Inr [\<lparr>tool_name = ''brave_web_search'', tool_run = fn_body (sync_web_fn ?key)\<rparr>,
           \<lparr>tool_name = ''brave_news_search'', tool_run = fn_body (sync_news_fn ?key)\<rparr>]"
    unfolding get_brave_web_search_tool_sync_def Let_def web news by simp
  then show ?thesis
    by (simp add: credential_missing_iff sync_web_fn_def sync_news_fn_def)
qed

theorem sync_provider_two_tools_witness:
  "accepts_positional_name langchain_tool
   \<and> (\<exists>web news.
        get_brave_web_search_tool_sync langchain_tool [''BRAVE_API_KEY'' \<mapsto> ''k1''] = Inr [web, news]
        \<and> tool_name web = ''brave_web_search''
        \<and> tool_name news = ''brave_news_search''
        \<and> tool_run web ''shoes'' = Inr ''[brave] search results for: shoes''
        \<and> tool_run news ''shoes'' = Inr ''[brave-news] search results for: shoes'')
   \<and> (\<exists>web news.
        get_brave_web_search_tool_sync langchain_tool (\<lambda>k. None) = Inr [web, news]
        \<and> tool_run web ''shoes'' = Inr unavailable_message
        \<and> tool_run news ''shoes'' = Inr unavailable_message)
   \<and> (\<exists>web news.
        get_brave_web_search_tool_sync langchain_tool
          [''BRAVE_API_KEY'' \<mapsto> [CHR 0xA0, CHR '' '', CHR 0x85, CHR 0x09]] = Inr [web, news]
        \<and> tool_run web ''shoes'' = Inr unavailable_message
        \<and> tool_run news ''shoes'' = Inr unavailable_message)"
proof -
  have a: "\<not> credential_missing [''BRAVE_API_KEY'' \<mapsto> ''k1'']"
    by (simp add: credential_missing_def is_space_def)
  have b: "credential_missing (\<lambda>k. None)"
    by (simp add: credential_missing_def)
  have c: "credential_missing [''BRAVE_API_KEY'' \<mapsto> [CHR 0xA0, CHR '' '', CHR 0x85, CHR 0x09]]"
    by (simp add: credential_missing_def is_space_def)
  show ?thesis
    using a b c accepts_positional_name_langchain_tool
      sync_provider_two_tools
        [OF accepts_positional_name_langchain_tool, of "[''BRAVE_API_KEY'' \<mapsto> ''k1'']"]
      sync_provider_two_tools
        [OF accepts_positional_name_langchain_tool, of "\<lambda>k. None"]
      sync_provider_two_tools
        [OF accepts_positional_name_langchain_tool,
         of "[''BRAVE_API_KEY'' \<mapsto> [CHR 0xA0, CHR '' '', CHR 0x85, CHR 0x09]]"]
    by auto
qed

end
